theory Spec2Isabelle
  imports Main "HOL-Library.Word"
begin

section \<open>hil-vpn-privop: generating and saving OpenVPN server configurations\<close>

text \<open>
  A shallow embedding of \<^verbatim>\<open>cmd/hil-vpn-privop/openvpn-conf.go\<close>. Go strings are byte
  sequences, so they are \<^typ>\<open>string\<close> (lists of 8-bit characters); \<^verbatim>\<open>uint16\<close> is
  \<^typ>\<open>16 word\<close>. Everything the code asks of the operating system (the file system, the
  random source, the \<^verbatim>\<open>openvpn\<close> subprocess) is explicit: the file system is a state
  passed through every operation, and what the environment answers is read from a record
  of type \<open>env\<close>.
\<close>

subsection \<open>Paths and names\<close>

definition configDir :: string where
  "configDir = ''/etc/openvpn/server''"

definition getCfgPath :: "string \<Rightarrow> string" where
  "getCfgPath name = configDir @ ''/'' @ name @ ''.conf''"

definition getKeyPath :: "string \<Rightarrow> string" where
  "getKeyPath name = configDir @ ''/hil-vpn-'' @ name @ ''.key''"

definition getServiceName :: "string \<Rightarrow> string" where
  "getServiceName vpnName = ''openvpn-server@'' @ vpnName"

subsection \<open>Errors and outcomes\<close>

text \<open>
  An operating-system error number: \<open>EEXIST\<close> is the one the code's exclusive create
  relies on, every other one is carried by its number.
\<close>

datatype errno = EEXIST | Errno nat

text \<open>
  Go error values. \<open>PathError op path e\<close> is \<^verbatim>\<open>*os.PathError\<close>. \<open>StartError\<close>,
  \<open>ExitError\<close> and \<open>SignalError\<close> are what \<^verbatim>\<open>exec.Cmd.Output\<close> reports: the process could
  not be started, it exited with a non-zero status, or a signal ended it. \<open>RuntimeError\<close>
  is a run-time panic of Go. \<open>FatalError context e\<close> is what \<^verbatim>\<open>chkfatal\<close> ends an operation
  with. \<open>ExecError e\<close> is the execution error in which \<^verbatim>\<open>text/template\<close> wraps the error of
  a method it called. \<open>Errorf prefix e\<close> is \<^verbatim>\<open>fmt.Errorf(prefix + "%v", e)\<close>.
\<close>

datatype error =
    PathError string string errno
  | StartError string
  | ExitError nat
  | SignalError nat
  | RuntimeError string
  | FatalError string error
  | ExecError error
  | Errorf string error

text \<open>
  How a call ends: it returns a value, or it panics with an error value. A panic ends the
  calling operations one after the other, running their deferred functions, until one of
  them recovers it.
\<close>

datatype 'a outcome = Return 'a | Panic error

subsection \<open>The file system and the environment\<close>

record osfile =
  mode :: "32 word"
  content :: string

type_synonym fs = "string \<rightharpoonup> osfile"

datatype proc_result =
    StartFailed string
  | Exited nat string
  | Signaled nat string

text \<open>
  What the environment answers. \<open>create_fault path\<close>: why a file that does not exist
  cannot be created at \<open>path\<close>, if so. \<open>write_fault path old data\<close>: whether writing
  \<open>data\<close> to the file at \<open>path\<close>, whose content is \<open>old\<close>, fails, and then after how many
  bytes and with which error number. \<open>remove_fault path\<close>: why the file at \<open>path\<close> cannot
  be removed, if so. \<open>rand_fault\<close>, \<open>rand_bytes\<close>: whether the secure random source fails,
  and the bytes it supplies. \<open>run_cmd argv\<close>: how the subprocess started with \<open>argv\<close> ends,
  with the bytes it wrote to its standard output.
\<close>

record env =
  create_fault :: "string \<Rightarrow> errno option"
  write_fault :: "string \<Rightarrow> string \<Rightarrow> string \<Rightarrow> (nat \<times> errno) option"
  remove_fault :: "string \<Rightarrow> errno option"
  rand_fault :: "errno option"
  rand_bytes :: "nat \<Rightarrow> 8 word"
  run_cmd :: "string list \<Rightarrow> proc_result"

text \<open>
  \<^verbatim>\<open>os.OpenFile(path, os.O_CREATE|os.O_EXCL|os.O_RDWR, perm)\<close>: with \<^verbatim>\<open>O_EXCL\<close> the file
  must not exist; otherwise it is created empty with mode \<open>perm\<close> (before umask). The
  handle returned is the path of the file.
\<close>

definition os_OpenFile :: "env \<Rightarrow> string \<Rightarrow> 32 word \<Rightarrow> fs \<Rightarrow> (error + string) \<times> fs" where
  "os_OpenFile e path perm fs =
     (if fs path \<noteq> None then (Inl (PathError ''open'' path EEXIST), fs)
      else case create_fault e path of
             Some n \<Rightarrow> (Inl (PathError ''open'' path n), fs)
           | None \<Rightarrow> (Inr path, fs(path \<mapsto> \<lparr>mode = perm, content = []\<rparr>)))"

text \<open>
  \<^verbatim>\<open>(*os.File).Write\<close>. The files written here are created empty by the same call of
  \<open>Save\<close> and written through one handle only, so the file offset is the length of the
  content and a write appends. A failing write may have written a prefix of the data.
\<close>

definition file_Write :: "env \<Rightarrow> string \<Rightarrow> string \<Rightarrow> fs \<Rightarrow> error option \<times> fs" where
  "file_Write e path data fs =
     (case fs path of
        None \<Rightarrow> (Some (PathError ''write'' path (Errno 9)), fs)
      | Some f \<Rightarrow>
          (case write_fault e path (content f) data of
             None \<Rightarrow> (None, fs(path \<mapsto> f\<lparr>content := content f @ data\<rparr>))
           | Some (n, no) \<Rightarrow>
               (Some (PathError ''write'' path no),
                fs(path \<mapsto> f\<lparr>content := content f @ take n data\<rparr>))))"

text \<open>
  \<^verbatim>\<open>os.Remove\<close>: the file is removed unless the environment refuses (a directory that
  allows no removal, a read-only file system, an input/output error), and then it stays
  as it is. The error is returned, and \<open>Save\<close> discards it.
\<close>

definition os_Remove :: "env \<Rightarrow> string \<Rightarrow> fs \<Rightarrow> error option \<times> fs" where
  "os_Remove e path fs =
     (case remove_fault e path of
        Some no \<Rightarrow> (Some (PathError ''remove'' path no), fs)
      | None \<Rightarrow> (None, fs(path := None)))"

text \<open>
  \<^verbatim>\<open>rand.Read(data[:])\<close> on a zeroed array of \<open>n\<close> bytes: the array afterwards, and the
  error.
\<close>

definition rand_Read :: "env \<Rightarrow> nat \<Rightarrow> 8 word list \<times> error option" where
  "rand_Read e n =
     (case rand_fault e of
        Some no \<Rightarrow> (replicate n 0, Some (PathError ''read'' ''/dev/urandom'' no))
      | None \<Rightarrow> (map (rand_bytes e) [0..<n], None))"

text \<open>
  \<^verbatim>\<open>exec.Command(argv...).Output()\<close>: the captured standard output, and an error unless
  the process ran and exited with status 0.
\<close>

definition cmd_Output :: "env \<Rightarrow> string list \<Rightarrow> string \<times> error option" where
  "cmd_Output e argv =
     (case run_cmd e argv of
        StartFailed msg \<Rightarrow> ([], Some (StartError msg))
      | Exited st out \<Rightarrow> (out, if st = 0 then None else Some (ExitError st))
      | Signaled sg out \<Rightarrow> (out, Some (SignalError sg)))"

text \<open>
  Modelled from the spec: \<^verbatim>\<open>chkfatal\<close>, a helper of this package that is defined in
  another file. The specification says of the failure it guards that it is fatal and
  terminates the calling operation immediately (4.3), that it is propagated to the caller
  of the writer, every failure path leaving the file system as it was (4.4), and that
  every error is returned to the immediate caller after the local cleanup (7). So a
  non-nil error ends the calling operation at once, by a panic that carries the context
  and the error; a nil error does nothing.
\<close>

definition chkfatal :: "string \<Rightarrow> error option \<Rightarrow> unit outcome" where
  "chkfatal ctx err = (case err of None \<Rightarrow> Return () | Some e \<Rightarrow> Panic (FatalError ctx e))"

subsection \<open>Base64 and decimal numbers\<close>

text \<open>The alphabet of \<^verbatim>\<open>base64.URLEncoding\<close>.\<close>

definition encodeURL :: string where
  "encodeURL = ''ABCDEFGHIJKLMNOPQRSTUVWXYZabcdefghijklmnopqrstuvwxyz0123456789-_''"

text \<open>
  \<^verbatim>\<open>base64.RawURLEncoding.EncodeToString\<close>: three bytes give four characters; one or two
  remaining bytes give two or three characters, with no padding.
\<close>

fun EncodeToString :: "8 word list \<Rightarrow> string" where
  "EncodeToString (a # b # c # rest) =
     (let val = unat a * 2 ^ 16 + unat b * 2 ^ 8 + unat c
      in [encodeURL ! (val div 2 ^ 18 mod 64), encodeURL ! (val div 2 ^ 12 mod 64),
          encodeURL ! (val div 2 ^ 6 mod 64), encodeURL ! (val mod 64)]
         @ EncodeToString rest)"
| "EncodeToString [a, b] =
     (let val = unat a * 2 ^ 16 + unat b * 2 ^ 8
      in [encodeURL ! (val div 2 ^ 18 mod 64), encodeURL ! (val div 2 ^ 12 mod 64),
          encodeURL ! (val div 2 ^ 6 mod 64)])"
| "EncodeToString [a] =
     (let val = unat a * 2 ^ 16
      in [encodeURL ! (val div 2 ^ 18 mod 64), encodeURL ! (val div 2 ^ 12 mod 64)])"
| "EncodeToString [] = []"

text \<open>How \<^verbatim>\<open>fmt.Fprint\<close> prints an unsigned integer: in decimal, with no padding.\<close>

fun itoa :: "nat \<Rightarrow> string" where
  "itoa n =
     (if n < 10 then [''0123456789'' ! n]
      else itoa (n div 10) @ [''0123456789'' ! (n mod 10)])"

declare itoa.simps [simp del]

subsection \<open>The configuration and its template\<close>

record OpenVpnCfg =
  Name :: string
  Key :: string
  Port :: "16 word"
  Vlan :: "16 word"

text \<open>
  \<open>templateArg\<close> embeds \<open>OpenVpnCfg\<close>, so its fields and its method \<open>NewInterfaceName\<close>
  are promoted: the record extends the configuration.
\<close>

record templateArg = OpenVpnCfg +
  Libexecdir :: string

abbreviation NL :: char where
  "NL \<equiv> CHR 0x0A"

abbreviation DQ :: char where
  "DQ \<equiv> CHR 0x22"

text \<open>
  The parsed template: literal text, and the five actions \<^verbatim>\<open>{{ .Field }}\<close>. The template
  text has no trim markers, so the text between two actions is kept as it is.
\<close>

datatype action = NewInterfaceName_field | Name_field | Port_field | Libexecdir_field | Vlan_field

datatype node = Text string | Action action

definition openVpnCfgTpl :: "node list" where
  "openVpnCfgTpl =
     [Text (NL # ''# This file is automatically generated by hil-vpn-privop; do not modify manually.''
            @ NL # NL # ''dev tap''),
      Action NewInterfaceName_field,
      Text (NL # ''secret hil-vpn-''),
      Action Name_field,
      Text (''.key'' @ NL # NL
            # ''# The default cipher is insecure, so we explicitly set the cipher to the openvpn''
            @ NL # ''# project'' @ CHR 0x27
            # ''s recommendation. See https://community.openvpn.net/openvpn/wiki/SWEET32''
            @ NL # ''cipher AES-256-CBC'' @ NL # NL # ''lport ''),
      Action Port_field,
      Text (NL # NL # ''up '' @ [DQ]),
      Action Libexecdir_field,
      Text ''/hil-vpn-hook-up '',
      Action Vlan_field,
      Text (DQ # NL # ''# Needed to permit the above to actually run:''
            @ NL # ''script-security 2'' @ NL # NL # ''user nobody'' @ NL # ''group nobody'' @ [NL])]"

text \<open>
  \<open>NewInterfaceName\<close>: sixteen random bytes, base64 without padding, the first twelve
  characters. Slicing a Go string beyond its length panics.
\<close>

definition NewInterfaceName :: "env \<Rightarrow> 'a OpenVpnCfg_scheme \<Rightarrow> string outcome" where
  "NewInterfaceName e cfg =
     (case rand_Read e 16 of
        (data, err) \<Rightarrow>
          (case chkfatal ''Generating interface name'' err of
             Panic x \<Rightarrow> Panic x
           | Return _ \<Rightarrow>
               (let s = EncodeToString data
                in if 12 \<le> length s then Return (take 12 s)
                   else Panic (RuntimeError ''slice bounds out of range''))))"

text \<open>The value of an action, as \<^verbatim>\<open>fmt.Fprint\<close> prints it.\<close>

fun evalField :: "env \<Rightarrow> templateArg \<Rightarrow> action \<Rightarrow> string outcome" where
  "evalField e arg NewInterfaceName_field = NewInterfaceName e arg"
| "evalField e arg Name_field = Return (Name arg)"
| "evalField e arg Port_field = Return (itoa (unat (Port arg)))"
| "evalField e arg Libexecdir_field = Return (Libexecdir arg)"
| "evalField e arg Vlan_field = Return (itoa (unat (Vlan arg)))"

text \<open>
  \<^verbatim>\<open>(*Template).Execute\<close> walks the nodes in order and writes each piece to the writer as
  soon as it has it. A write error ends the execution and is returned. A panic in a
  method that an action calls is recovered by the template package, which returns its
  value as the error of the execution.
\<close>

fun exec_nodes :: "env \<Rightarrow> templateArg \<Rightarrow> string \<Rightarrow> node list \<Rightarrow> fs \<Rightarrow> error option outcome \<times> fs" where
  "exec_nodes e arg w [] fs = (Return None, fs)"
| "exec_nodes e arg w (Text t # ns) fs =
     (case file_Write e w t fs of
        (Some err, fs') \<Rightarrow> (Return (Some err), fs')
      | (None, fs') \<Rightarrow> exec_nodes e arg w ns fs')"
| "exec_nodes e arg w (Action a # ns) fs =
     (case evalField e arg a of
        Panic x \<Rightarrow> (Return (Some (ExecError x)), fs)
      | Return v \<Rightarrow>
          (case file_Write e w v fs of
             (Some err, fs') \<Rightarrow> (Return (Some err), fs')
           | (None, fs') \<Rightarrow> exec_nodes e arg w ns fs'))"

definition Execute :: "env \<Rightarrow> templateArg \<Rightarrow> string \<Rightarrow> fs \<Rightarrow> error option outcome \<times> fs" where
  "Execute e arg w fs = exec_nodes e arg w openVpnCfgTpl fs"

subsection \<open>Saving a configuration\<close>

text \<open>
  One of the two deferred functions of \<open>Save\<close>: close the file and, if \<open>err\<close> is not
  nil by then, remove it, whatever \<^verbatim>\<open>os.Remove\<close> answers. Both closures read the one
  variable \<open>err\<close> of \<open>Save\<close>, which every later step assigns.
\<close>

definition deferred_cleanup :: "env \<Rightarrow> string \<Rightarrow> error option \<Rightarrow> fs \<Rightarrow> fs" where
  "deferred_cleanup e path err fs = (if err \<noteq> None then snd (os_Remove e path fs) else fs)"

text \<open>
  \<open>Save\<close>. The first argument is \<^verbatim>\<open>staticconfig.Libexecdir\<close>, a constant of another package.
  Deferred functions run last-registered first when \<open>Save\<close> returns or panics (a panic
  out of \<open>Execute\<close> would leave \<open>err\<close> nil, as the opening of the key file set it).
\<close>

definition Save :: "string \<Rightarrow> env \<Rightarrow> OpenVpnCfg \<Rightarrow> fs \<Rightarrow> error option outcome \<times> fs" where
  "Save libexecdir e cfg fs =
     (let cfgPath = getCfgPath (Name cfg);
          keyPath = getKeyPath (Name cfg)
      in case os_OpenFile e cfgPath 0x180 fs of
           (Inl err, fs1) \<Rightarrow> (Return (Some err), fs1)
         | (Inr cfgFile, fs1) \<Rightarrow>
             (case os_OpenFile e keyPath 0x180 fs1 of
                (Inl err, fs2) \<Rightarrow>
                  (Return (Some err), deferred_cleanup e cfgPath (Some err) fs2)
              | (Inr keyFile, fs2) \<Rightarrow>
                  (let arg = OpenVpnCfg.extend cfg (templateArg.fields libexecdir)
                   in case Execute e arg cfgFile fs2 of
                        (Panic x, fs3) \<Rightarrow>
                          (Panic x,
                           deferred_cleanup e cfgPath None
                             (deferred_cleanup e keyPath None fs3))
                      | (Return (Some err), fs3) \<Rightarrow>
                          (Return (Some err),
                           deferred_cleanup e cfgPath (Some err)
                             (deferred_cleanup e keyPath (Some err) fs3))
                      | (Return None, fs3) \<Rightarrow>
                          (case file_Write e keyFile (Key cfg) fs3 of
                             (err, fs4) \<Rightarrow>
                               (Return err,
                                deferred_cleanup e cfgPath err
                                  (deferred_cleanup e keyPath err fs4))))))"

text \<open>A call has failed when it has returned an error.\<close>

definition failed :: "error option outcome \<Rightarrow> bool" where
  "failed r = (case r of Return (Some err) \<Rightarrow> True | _ \<Rightarrow> False)"

text \<open>
  \<open>NewOpenVpnConfig\<close>. It calls nothing that touches the file system, which it hands
  back as it got it.
\<close>

definition NewOpenVpnConfig ::
  "env \<Rightarrow> string \<Rightarrow> 16 word \<Rightarrow> 16 word \<Rightarrow> fs \<Rightarrow> (error + OpenVpnCfg) \<times> fs" where
  "NewOpenVpnConfig e name vlan port fs =
     (case cmd_Output e [''openvpn'', ''--genkey'', ''--secret'', ''/dev/fd/1''] of
        (output, Some err) \<Rightarrow> (Inl (Errorf ''Error invoking openvpn: '' err), fs)
      | (output, None) \<Rightarrow>
          (Inr \<lparr>Name = name, Key = output, Port = port, Vlan = vlan\<rparr>, fs))"

text \<open>The lines of a text: the pieces between its newline characters.\<close>

fun lines_of :: "string \<Rightarrow> string list" where
  "lines_of [] = [[]]"
| "lines_of (c # cs) =
     (if c = NL then [] # lines_of cs
      else (case lines_of cs of
              [] \<Rightarrow> [[c]]
            | l # ls \<Rightarrow> (c # l) # ls))"

subsection \<open>Example inputs\<close>

text \<open>
  An environment in which nothing fails, one in which writing the key file fails after
  three bytes, one in which the random source fails, and one in which \<^verbatim>\<open>openvpn\<close> exits
  with status 1; the same environments with every removal refused (error number 1,
  operation not permitted); a configuration; a file system that has the config file of
  \<open>lab1\<close>, and one that has its key file.
\<close>

definition env_ok :: env where
  "env_ok = \<lparr>create_fault = (\<lambda>_. None), write_fault = (\<lambda>_ _ _. None),
             remove_fault = (\<lambda>_. None), rand_fault = None,
             rand_bytes = (\<lambda>i. of_nat (i * 37 + 200)),
             run_cmd = (\<lambda>_. Exited 0 ''secret-bytes'')\<rparr>"

definition env_keyfail :: env where
  "env_keyfail = env_ok\<lparr>write_fault :=
     (\<lambda>p old d. if p = getKeyPath ''lab1'' then Some (3, Errno 28) else None)\<rparr>"

definition env_norand :: env where
  "env_norand = env_ok\<lparr>rand_fault := Some (Errno 5)\<rparr>"

definition env_ok_noremove :: env where
  "env_ok_noremove = env_ok\<lparr>remove_fault := (\<lambda>_. Some (Errno 1))\<rparr>"

definition env_keyfail_noremove :: env where
  "env_keyfail_noremove = env_keyfail\<lparr>remove_fault := (\<lambda>_. Some (Errno 1))\<rparr>"

definition env_norand_noremove :: env where
  "env_norand_noremove = env_norand\<lparr>remove_fault := (\<lambda>_. Some (Errno 1))\<rparr>"

definition env_nokey :: env where
  "env_nokey = env_ok\<lparr>run_cmd := (\<lambda>_. Exited 1 [])\<rparr>"

definition cfg_lab1 :: OpenVpnCfg where
  "cfg_lab1 = \<lparr>Name = ''lab1'', Key = ''secret-bytes'', Port = 1194, Vlan = 42\<rparr>"

definition fs_cfg_exists :: fs where
  "fs_cfg_exists = [getCfgPath ''lab1'' \<mapsto> \<lparr>mode = 0x1A4, content = ''dev tap0''\<rparr>]"

definition fs_key_exists :: fs where
  "fs_key_exists = [getKeyPath ''lab1'' \<mapsto> \<lparr>mode = 0x180, content = ''old-key''\<rparr>]"

subsection \<open>Theorems about paths\<close>

lemma cfg_path_not_key_path: "getCfgPath n1 \<noteq> getKeyPath n2"
proof
  assume "getCfgPath n1 = getKeyPath n2"
  then have "last (getCfgPath n1) = last (getKeyPath n2)"
    by simp
  then show False
    by (simp add: getCfgPath_def getKeyPath_def)
qed

text \<open>
  Claim C9. For every name, the config path is \<^verbatim>\<open>/etc/openvpn/server/<name>.conf\<close>, the
  key path is \<^verbatim>\<open>/etc/openvpn/server/hil-vpn-<name>.key\<close>, and the service-manager unit
  name is \<^verbatim>\<open>openvpn-server@<name>\<close>.
\<close>

theorem derived_names:
  "getCfgPath name = ''/etc/openvpn/server/'' @ name @ ''.conf''
   \<and> getKeyPath name = ''/etc/openvpn/server/hil-vpn-'' @ name @ ''.key''
   \<and> getServiceName name = ''openvpn-server@'' @ name"
  by (simp add: getCfgPath_def getKeyPath_def getServiceName_def configDir_def)

text \<open>
  Claim C10. The derived paths never alias: \<open>getCfgPath\<close> is injective, \<open>getKeyPath\<close> is
  injective, and no config path equals any key path, whatever the two names are.
\<close>

theorem paths_never_alias:
  "inj getCfgPath \<and> inj getKeyPath \<and> (\<forall>n1 n2. getCfgPath n1 \<noteq> getKeyPath n2)"
proof (intro conjI allI)
  show "inj getCfgPath"
    by (rule injI) (simp add: getCfgPath_def)
  show "inj getKeyPath"
    by (rule injI) (simp add: getKeyPath_def)
  show "getCfgPath n1 \<noteq> getKeyPath n2" for n1 n2
    by (rule cfg_path_not_key_path)
qed

theorem paths_never_alias_witness:
  "getCfgPath ''lab1'' \<noteq> getCfgPath ''lab2''
   \<and> getKeyPath ''lab1'' \<noteq> getKeyPath ''lab2''
   \<and> getCfgPath ''lab1'' \<noteq> getKeyPath ''lab1''"
proof -
  have ne: "''lab1'' \<noteq> ''lab2''"
    by simp
  from paths_never_alias have c: "inj getCfgPath" and k: "inj getKeyPath"
    and d: "getCfgPath ''lab1'' \<noteq> getKeyPath ''lab1''"
    by blast+
  from c ne have "getCfgPath ''lab1'' \<noteq> getCfgPath ''lab2''"
    by (auto dest: injD)
  moreover from k ne have "getKeyPath ''lab1'' \<noteq> getKeyPath ''lab2''"
    by (auto dest: injD)
  ultimately show ?thesis
    using d by simp
qed

subsection \<open>The operating-system calls\<close>

lemma os_OpenFile_Inl: "os_OpenFile e p m fs = (Inl err, fs1) \<Longrightarrow> fs1 = fs"
  by (auto simp: os_OpenFile_def split: if_splits option.splits)

lemma os_OpenFile_Inr:
  "os_OpenFile e p m fs = (Inr h, fs1) \<Longrightarrow>
     h = p \<and> fs p = None \<and> create_fault e p = None \<and> fs1 = fs(p \<mapsto> \<lparr>mode = m, content = []\<rparr>)"
  by (auto simp: os_OpenFile_def split: if_splits option.splits)

lemma file_Write_other: "file_Write e w d fs = (r, fs') \<Longrightarrow> p \<noteq> w \<Longrightarrow> fs' p = fs p"
  by (auto simp: file_Write_def split: option.splits)

lemma file_Write_ok:
  "file_Write e w d fs = (None, fs') \<Longrightarrow> fs w = Some f \<Longrightarrow>
     fs' = fs(w \<mapsto> f\<lparr>content := content f @ d\<rparr>) \<and> write_fault e w (content f) d = None"
  by (auto simp: file_Write_def split: option.splits)

lemma exec_nodes_other:
  "exec_nodes e arg w ns fs = (r, fs') \<Longrightarrow> p \<noteq> w \<Longrightarrow> fs' p = fs p"
proof (induction e arg w ns fs rule: exec_nodes.induct)
  case (1 e arg w fs)
  then show ?case by simp
next
  case (2 e arg w t ns fs)
  obtain r1 fs1 where w1: "file_Write e w t fs = (r1, fs1)"
    by (cases "file_Write e w t fs")
  with file_Write_other[OF w1 \<open>p \<noteq> w\<close>] 2 show ?case
    by (cases r1) auto
next
  case (3 e arg w a ns fs)
  show ?case
  proof (cases "evalField e arg a")
    case (Return v)
    obtain r1 fs1 where w1: "file_Write e w v fs = (r1, fs1)"
      by (cases "file_Write e w v fs")
    with file_Write_other[OF w1 \<open>p \<noteq> w\<close>] 3 Return show ?thesis
      by (cases r1) auto
  next
    case (Panic x)
    with 3 show ?thesis by simp
  qed
qed

lemma exec_nodes_no_panic: "fst (exec_nodes e arg w ns fs) \<noteq> Panic x"
  by (induction e arg w ns fs rule: exec_nodes.induct)
     (auto split: prod.splits option.splits outcome.splits)

lemma file_Write_no_fault:
  "write_fault e w (content f) d = None \<Longrightarrow> fs w = Some f \<Longrightarrow>
     file_Write e w d fs = (None, fs(w \<mapsto> f\<lparr>content := content f @ d\<rparr>))"
  by (simp add: file_Write_def)

subsection \<open>The interface name\<close>

lemma length_encodeURL: "length encodeURL = 64"
  by (simp add: encodeURL_def)

lemma encodeURL_nth: "encodeURL ! (n mod 64) \<in> set encodeURL"
  by (rule nth_mem) (simp add: length_encodeURL)

lemma EncodeToString_alphabet: "set (EncodeToString bs) \<subseteq> set encodeURL"
  by (induction bs rule: EncodeToString.induct) (simp_all add: Let_def encodeURL_nth)

lemma EncodeToString_length: "length (EncodeToString bs) = (4 * length bs + 2) div 3"
  by (induction bs rule: EncodeToString.induct) (simp_all add: Let_def)

lemma upt_16: "[0..<16] = [0, 1, 2, 3, 4, 5, 6, 7, 8, 9, 10, 11, 12, 13, 14, 15 :: nat]"
  by (simp add: upt_rec)

lemma NewInterfaceName_Return:
  assumes "NewInterfaceName e cfg = Return s"
  shows "rand_fault e = None \<and> s = take 12 (EncodeToString (map (rand_bytes e) [0..<16]))
         \<and> length s = 12 \<and> set s \<subseteq> set encodeURL"
proof -
  from assms have rf: "rand_fault e = None"
    by (auto simp: NewInterfaceName_def rand_Read_def chkfatal_def split: option.splits)
  let ?data = "map (rand_bytes e) [0..<16]"
  have len: "length (EncodeToString ?data) = 22"
    by (simp add: EncodeToString_length)
  with assms rf have s: "s = take 12 (EncodeToString ?data)"
    by (simp add: NewInterfaceName_def rand_Read_def chkfatal_def Let_def)
  with len have "length s = 12" by simp
  moreover have "set s \<subseteq> set encodeURL"
    using s EncodeToString_alphabet[of ?data] set_take_subset[of 12 "EncodeToString ?data"] by blast
  ultimately show ?thesis using rf s by simp
qed

lemma NewInterfaceName_total:
  "NewInterfaceName e cfg = (case rand_fault e of
       None \<Rightarrow> Return (take 12 (EncodeToString (map (rand_bytes e) [0..<16])))
     | Some no \<Rightarrow> Panic (FatalError ''Generating interface name''
                         (PathError ''read'' ''/dev/urandom'' no)))"
  by (simp add: NewInterfaceName_def rand_Read_def chkfatal_def Let_def EncodeToString_length
      split: option.splits)

subsection \<open>Executing the template\<close>

lemma exec_nodes_content:
  "exec_nodes e arg w ns fs = (Return None, fs') \<Longrightarrow> fs w = Some f \<Longrightarrow>
     \<exists>pieces. list_all2 (\<lambda>n s. case n of Text t \<Rightarrow> s = t | Action a \<Rightarrow> evalField e arg a = Return s) ns pieces
        \<and> fs' = fs(w \<mapsto> f\<lparr>content := content f @ concat pieces\<rparr>)"
proof (induction e arg w ns fs arbitrary: f rule: exec_nodes.induct)
  case (1 e arg w fs)
  then show ?case by auto
next
  case (2 e arg w t ns fs)
  obtain r1 fs1 where w1: "file_Write e w t fs = (r1, fs1)"
    by (cases "file_Write e w t fs")
  with 2(2) have r1: "r1 = None" and rest: "exec_nodes e arg w ns fs1 = (Return None, fs')"
    by (auto split: option.splits)
  from file_Write_ok[OF w1[unfolded r1] 2(3)]
  have fs1: "fs1 = fs(w \<mapsto> f\<lparr>content := content f @ t\<rparr>)" by simp
  then have "fs1 w = Some (f\<lparr>content := content f @ t\<rparr>)" by simp
  from 2(1)[OF w1[symmetric] r1 rest this] obtain pieces where
    p: "list_all2 (\<lambda>n s. case n of Text t \<Rightarrow> s = t | Action a \<Rightarrow> evalField e arg a = Return s) ns pieces"
    and f: "fs' = fs1(w \<mapsto> f\<lparr>content := content f @ t\<rparr>\<lparr>content := content (f\<lparr>content := content f @ t\<rparr>) @ concat pieces\<rparr>)"
    by blast
  show ?case
    by (rule exI[of _ "t # pieces"]) (simp add: p f fs1)
next
  case (3 e arg w a ns fs)
  from 3(2) obtain v where v: "evalField e arg a = Return v"
    by (cases "evalField e arg a") auto
  obtain r1 fs1 where w1: "file_Write e w v fs = (r1, fs1)"
    by (cases "file_Write e w v fs")
  with 3(2) v have r1: "r1 = None" and rest: "exec_nodes e arg w ns fs1 = (Return None, fs')"
    by (auto split: option.splits)
  from file_Write_ok[OF w1[unfolded r1] 3(3)]
  have fs1: "fs1 = fs(w \<mapsto> f\<lparr>content := content f @ v\<rparr>)" by simp
  then have "fs1 w = Some (f\<lparr>content := content f @ v\<rparr>)" by simp
  from 3(1)[OF v w1[symmetric] r1 rest this] obtain pieces where
    p: "list_all2 (\<lambda>n s. case n of Text t \<Rightarrow> s = t | Action a \<Rightarrow> evalField e arg a = Return s) ns pieces"
    and f: "fs' = fs1(w \<mapsto> f\<lparr>content := content f @ v\<rparr>\<lparr>content := content (f\<lparr>content := content f @ v\<rparr>) @ concat pieces\<rparr>)"
    by blast
  show ?case
    by (rule exI[of _ "v # pieces"]) (simp add: p f fs1 v)
qed

lemma evalField_Return: "rand_fault e = None \<Longrightarrow> \<exists>v. evalField e arg a = Return v"
  by (cases a) (simp_all add: NewInterfaceName_total)

lemma exec_nodes_no_fault:
  assumes "\<forall>old d. write_fault e w old d = None" and "rand_fault e = None"
  shows "fs w = Some f \<Longrightarrow> fst (exec_nodes e arg w ns fs) = Return None"
proof (induction ns arbitrary: fs f)
  case Nil
  then show ?case by simp
next
  case (Cons n ns)
  show ?case
  proof (cases n)
    case (Text t)
    from assms(1) Cons.prems
    have "file_Write e w t fs = (None, fs(w \<mapsto> f\<lparr>content := content f @ t\<rparr>))"
      by (simp add: file_Write_no_fault)
    moreover have "fst (exec_nodes e arg w ns (fs(w \<mapsto> f\<lparr>content := content f @ t\<rparr>))) = Return None"
      by (rule Cons.IH[where f = "f\<lparr>content := content f @ t\<rparr>"]) simp
    ultimately show ?thesis
      using Text by simp
  next
    case (Action a)
    from evalField_Return[OF assms(2)] obtain v where v: "evalField e arg a = Return v"
      by blast
    from assms(1) Cons.prems
    have "file_Write e w v fs = (None, fs(w \<mapsto> f\<lparr>content := content f @ v\<rparr>))"
      by (simp add: file_Write_no_fault)
    moreover have "fst (exec_nodes e arg w ns (fs(w \<mapsto> f\<lparr>content := content f @ v\<rparr>))) = Return None"
      by (rule Cons.IH[where f = "f\<lparr>content := content f @ v\<rparr>"]) simp
    ultimately show ?thesis
      using Action v by simp
  qed
qed

lemma rendered_pieces:
  assumes "list_all2 (\<lambda>n s. case n of Text t \<Rightarrow> s = t | Action a \<Rightarrow> evalField e arg a = Return s)
             openVpnCfgTpl pieces"
  shows "\<exists>s. NewInterfaceName e arg = Return s \<and>
    concat pieces = concat (map (\<lambda>l. l @ [NL])
      [[], ''# This file is automatically generated by hil-vpn-privop; do not modify manually.'',
       [], ''dev tap'' @ s, ''secret hil-vpn-'' @ Name arg @ ''.key'', [],
       ''# The default cipher is insecure, so we explicitly set the cipher to the openvpn'',
       ''# project'' @ CHR 0x27 # ''s recommendation. See https://community.openvpn.net/openvpn/wiki/SWEET32'',
       ''cipher AES-256-CBC'', [], ''lport '' @ itoa (unat (Port arg)), [],
       ''up '' @ DQ # Libexecdir arg @ ''/hil-vpn-hook-up '' @ itoa (unat (Vlan arg)) @ [DQ],
       ''# Needed to permit the above to actually run:'', ''script-security 2'', [],
       ''user nobody'', ''group nobody''])"
  using assms unfolding openVpnCfgTpl_def
  by (auto simp: list_all2_Cons1)

subsection \<open>The steps of Save\<close>

lemma pair_of_fst: "fst p = a \<Longrightarrow> p = (a, snd p)"
  by (cases p) simp

lemma deferred_cleanup_at:
  "deferred_cleanup e q (Some err) fs p
     = (if p = q \<and> remove_fault e q = None then None else fs p)"
  by (simp add: deferred_cleanup_def os_Remove_def split: option.splits)

lemma deferred_cleanup_nil: "deferred_cleanup e q None fs = fs"
  by (simp add: deferred_cleanup_def)

text \<open>
  What a call of \<open>Save\<close> that gets as far as creating both files does next.
\<close>

lemma Save_after_create:
  assumes "fs (getCfgPath (Name cfg)) = None" and "fs (getKeyPath (Name cfg)) = None"
    and "create_fault e (getCfgPath (Name cfg)) = None"
    and "create_fault e (getKeyPath (Name cfg)) = None"
  shows "Save libexecdir e cfg fs =
     (case Execute e (OpenVpnCfg.extend cfg (templateArg.fields libexecdir)) (getCfgPath (Name cfg))
             (fs(getCfgPath (Name cfg) \<mapsto> \<lparr>mode = 0x180, content = []\<rparr>,
                 getKeyPath (Name cfg) \<mapsto> \<lparr>mode = 0x180, content = []\<rparr>)) of
        (Panic x, fs3) \<Rightarrow> (Panic x, fs3)
      | (Return (Some err), fs3) \<Rightarrow>
          (Return (Some err),
           deferred_cleanup e (getCfgPath (Name cfg)) (Some err)
             (deferred_cleanup e (getKeyPath (Name cfg)) (Some err) fs3))
      | (Return None, fs3) \<Rightarrow>
          (case file_Write e (getKeyPath (Name cfg)) (Key cfg) fs3 of
             (err, fs4) \<Rightarrow>
               (Return err,
                deferred_cleanup e (getCfgPath (Name cfg)) err
                  (deferred_cleanup e (getKeyPath (Name cfg)) err fs4))))"
  using assms cfg_path_not_key_path[of "Name cfg" "Name cfg"]
  by (simp add: Save_def Let_def os_OpenFile_def deferred_cleanup_nil
      split: prod.splits outcome.splits option.splits)

text \<open>
  The ways in which \<open>Save\<close> returns: the creation of the config file fails; the creation
  of the key file fails; or both files are created, and then the execution of the
  template, followed unless it fails by the writing of the key, decides the result.
\<close>

lemma Save_returns:
  assumes "Save libexecdir e cfg fs = (Return r, fs')"
  shows "fs' = fs
     \<or> (fs (getCfgPath (Name cfg)) = None \<and> r \<noteq> None
          \<and> fs' = deferred_cleanup e (getCfgPath (Name cfg)) r
                     (fs(getCfgPath (Name cfg) \<mapsto> \<lparr>mode = 0x180, content = []\<rparr>)))
     \<or> (fs (getCfgPath (Name cfg)) = None \<and> fs (getKeyPath (Name cfg)) = None
          \<and> (\<exists>fsN. (\<forall>p. p \<noteq> getCfgPath (Name cfg) \<and> p \<noteq> getKeyPath (Name cfg) \<longrightarrow> fsN p = fs p)
                \<and> fs' = deferred_cleanup e (getCfgPath (Name cfg)) r
                           (deferred_cleanup e (getKeyPath (Name cfg)) r fsN)))"
proof -
  let ?c = "getCfgPath (Name cfg)"
  let ?k = "getKeyPath (Name cfg)"
  let ?arg = "OpenVpnCfg.extend cfg (templateArg.fields libexecdir)"
  let ?F0 = "\<lparr>mode = 0x180 :: 32 word, content = []\<rparr>"
  have ck: "?c \<noteq> ?k" by (simp add: cfg_path_not_key_path)
  obtain r1 fs1 where o1: "os_OpenFile e ?c 0x180 fs = (r1, fs1)"
    by (cases "os_OpenFile e ?c 0x180 fs")
  show ?thesis
  proof (cases r1)
    case (Inl e1)
    with assms o1 os_OpenFile_Inl[of e ?c "0x180" fs e1 fs1] have "fs' = fs"
      by (auto simp: Save_def)
    then show ?thesis by blast
  next
    case (Inr cfgFile)
    from os_OpenFile_Inr[OF o1[unfolded Inr]]
    have h1: "cfgFile = ?c" "fs ?c = None" "create_fault e ?c = None" "fs1 = fs(?c \<mapsto> ?F0)"
      by simp_all
    obtain r2 fs2 where o2: "os_OpenFile e ?k 0x180 fs1 = (r2, fs2)"
      by (cases "os_OpenFile e ?k 0x180 fs1")
    show ?thesis
    proof (cases r2)
      case (Inl e2)
      with os_OpenFile_Inl[of e ?k "0x180" fs1 e2 fs2] o2 have "fs2 = fs1" by simp
      with assms o1 o2 Inr Inl have "r = Some e2 \<and> fs' = deferred_cleanup e ?c r fs1"
        by (auto simp: Save_def)
      with h1 show ?thesis
        by blast
    next
      case r2: (Inr keyFile)
      from os_OpenFile_Inr[OF o2[unfolded r2]]
      have h2: "keyFile = ?k" "fs1 ?k = None" "create_fault e ?k = None" "fs2 = fs1(?k \<mapsto> ?F0)"
        by simp_all
      from h1 h2 ck have fsk: "fs ?k = None" by (simp split: if_splits)
      obtain r3 fs3 where o3: "Execute e ?arg ?c (fs(?c \<mapsto> ?F0, ?k \<mapsto> ?F0)) = (r3, fs3)"
        by (cases "Execute e ?arg ?c (fs(?c \<mapsto> ?F0, ?k \<mapsto> ?F0))")
      have fr3: "fs3 p = fs p" if "p \<noteq> ?c" "p \<noteq> ?k" for p
        using exec_nodes_other[OF o3[unfolded Execute_def] that(1)] that by simp
      obtain r4 fs4 where o4: "file_Write e ?k (Key cfg) fs3 = (r4, fs4)"
        by (cases "file_Write e ?k (Key cfg) fs3")
      have fr4: "fs4 p = fs p" if "p \<noteq> ?c" "p \<noteq> ?k" for p
        using file_Write_other[OF o4 that(2)] fr3[OF that] by simp
      have E: "Save libexecdir e cfg fs =
          (case (r3, fs3) of
             (Panic x, fs3) \<Rightarrow> (Panic x, fs3)
           | (Return (Some err), fs3) \<Rightarrow> (Return (Some err),
                deferred_cleanup e ?c (Some err) (deferred_cleanup e ?k (Some err) fs3))
           | (Return None, fs3) \<Rightarrow>
               (case file_Write e ?k (Key cfg) fs3 of
                  (err, fs4) \<Rightarrow> (Return err,
                     deferred_cleanup e ?c err (deferred_cleanup e ?k err fs4))))"
        using Save_after_create[where cfg = cfg and fs = fs and e = e and libexecdir = libexecdir] h1 h2 fsk o3
        by simp
      have "\<exists>fsN. (\<forall>p. p \<noteq> ?c \<and> p \<noteq> ?k \<longrightarrow> fsN p = fs p)
                \<and> fs' = deferred_cleanup e ?c r (deferred_cleanup e ?k r fsN)"
      proof (cases r3)
        case (Panic x)
        with E assms show ?thesis by simp
      next
        case (Return x)
        show ?thesis
        proof (cases x)
          case None
          with E assms o4 Return
          have "r = r4" "fs' = deferred_cleanup e ?c r (deferred_cleanup e ?k r fs4)"
            by auto
          with fr4 show ?thesis by blast
        next
          case (Some e3)
          with E assms Return have "r = Some e3"
            "fs' = deferred_cleanup e ?c r (deferred_cleanup e ?k r fs3)"
            by auto
          with fr3 show ?thesis by blast
        qed
      qed
      with h1 fsk show ?thesis
        by blast
    qed
  qed
qed

lemma Save_success_steps:
  assumes "Save libexecdir e cfg fs = (Return None, fs')"
  shows "fs (getCfgPath (Name cfg)) = None \<and> fs (getKeyPath (Name cfg)) = None
    \<and> (\<exists>pieces.
         list_all2 (\<lambda>n s. case n of Text t \<Rightarrow> s = t
                      | Action a \<Rightarrow> evalField e (OpenVpnCfg.extend cfg (templateArg.fields libexecdir)) a = Return s)
           openVpnCfgTpl pieces
         \<and> fs' = fs(getCfgPath (Name cfg) \<mapsto> \<lparr>mode = 0x180, content = concat pieces\<rparr>,
                     getKeyPath (Name cfg) \<mapsto> \<lparr>mode = 0x180, content = Key cfg\<rparr>))"
proof -
  let ?c = "getCfgPath (Name cfg)"
  let ?k = "getKeyPath (Name cfg)"
  let ?arg = "OpenVpnCfg.extend cfg (templateArg.fields libexecdir)"
  let ?F0 = "\<lparr>mode = 0x180 :: 32 word, content = []\<rparr>"
  have ck: "?c \<noteq> ?k" by (simp add: cfg_path_not_key_path)
  obtain r1 fs1 where o1: "os_OpenFile e ?c 0x180 fs = (r1, fs1)"
    by (cases "os_OpenFile e ?c 0x180 fs")
  from assms o1 obtain cfgFile where r1: "r1 = Inr cfgFile"
    by (cases r1) (auto simp: Save_def)
  from os_OpenFile_Inr[OF o1[unfolded r1]]
  have h1: "fs ?c = None" "create_fault e ?c = None" "fs1 = fs(?c \<mapsto> ?F0)"
    by simp_all
  obtain r2 fs2 where o2: "os_OpenFile e ?k 0x180 fs1 = (r2, fs2)"
    by (cases "os_OpenFile e ?k 0x180 fs1")
  from assms o1 r1 o2 obtain keyFile where r2: "r2 = Inr keyFile"
    by (cases r2) (auto simp: Save_def)
  from os_OpenFile_Inr[OF o2[unfolded r2]]
  have h2: "fs1 ?k = None" "create_fault e ?k = None"
    by simp_all
  from h1 h2 ck have fsk: "fs ?k = None" by (simp split: if_splits)
  obtain r3 fs3 where o3: "Execute e ?arg ?c (fs(?c \<mapsto> ?F0, ?k \<mapsto> ?F0)) = (r3, fs3)"
    by (cases "Execute e ?arg ?c (fs(?c \<mapsto> ?F0, ?k \<mapsto> ?F0))")
  obtain r4 fs4 where o4: "file_Write e ?k (Key cfg) fs3 = (r4, fs4)"
    by (cases "file_Write e ?k (Key cfg) fs3")
  have E: "Save libexecdir e cfg fs =
      (case (r3, fs3) of
         (Panic x, fs3) \<Rightarrow> (Panic x, fs3)
       | (Return (Some err), fs3) \<Rightarrow> (Return (Some err),
            deferred_cleanup e ?c (Some err) (deferred_cleanup e ?k (Some err) fs3))
       | (Return None, fs3) \<Rightarrow>
           (case file_Write e ?k (Key cfg) fs3 of
              (err, fs4) \<Rightarrow> (Return err,
                 deferred_cleanup e ?c err (deferred_cleanup e ?k err fs4))))"
    using Save_after_create[where cfg = cfg and fs = fs and e = e and libexecdir = libexecdir]
      h1 h2 fsk o3
    by simp
  with assms have r3: "r3 = Return None"
    by (auto split: outcome.splits option.splits)
  with E assms o4 have r4: "r4 = None" and f': "fs' = fs4"
    by (auto simp: deferred_cleanup_nil)
  have "(fs(?c \<mapsto> ?F0, ?k \<mapsto> ?F0)) ?c = Some ?F0"
    using ck by simp
  from exec_nodes_content[OF o3[unfolded Execute_def r3] this] obtain pieces where
    p: "list_all2 (\<lambda>n s. case n of Text t \<Rightarrow> s = t | Action a \<Rightarrow> evalField e ?arg a = Return s)
          openVpnCfgTpl pieces"
    and fs3': "fs3 = (fs(?c \<mapsto> ?F0, ?k \<mapsto> ?F0))(?c \<mapsto> ?F0\<lparr>content := content ?F0 @ concat pieces\<rparr>)"
    by blast
  from fs3' have fs3: "fs3 = (fs(?c \<mapsto> ?F0, ?k \<mapsto> ?F0))(?c \<mapsto> \<lparr>mode = 0x180, content = concat pieces\<rparr>)"
    by simp
  have "fs3 ?k = Some ?F0"
    using fs3 ck by simp
  from file_Write_ok[OF o4[unfolded r4] this]
  have fs4: "fs4 = fs3(?k \<mapsto> \<lparr>mode = 0x180, content = Key cfg\<rparr>)"
    by simp
  have "fs' = fs(?c \<mapsto> \<lparr>mode = 0x180, content = concat pieces\<rparr>,
                 ?k \<mapsto> \<lparr>mode = 0x180, content = Key cfg\<rparr>)"
    using f' fs4 fs3 ck by (auto simp: fun_eq_iff)
  with p h1 fsk show ?thesis
    by blast
qed

lemma Save_outcome_config_written:
  assumes "fs (getCfgPath (Name cfg)) = None" and "fs (getKeyPath (Name cfg)) = None"
    and "create_fault e (getCfgPath (Name cfg)) = None"
    and "create_fault e (getKeyPath (Name cfg)) = None"
    and "rand_fault e = None"
    and "\<forall>old d. write_fault e (getCfgPath (Name cfg)) old d = None"
  shows "fst (Save libexecdir e cfg fs)
      = Return (case write_fault e (getKeyPath (Name cfg)) [] (Key cfg) of
                  None \<Rightarrow> None
                | Some (n, no) \<Rightarrow> Some (PathError ''write'' (getKeyPath (Name cfg)) no))
    \<and> snd (Save libexecdir e cfg fs) (getKeyPath (Name cfg))
      = (case write_fault e (getKeyPath (Name cfg)) [] (Key cfg) of
           None \<Rightarrow> Some \<lparr>mode = 0x180, content = Key cfg\<rparr>
         | Some (n, no) \<Rightarrow>
             (case remove_fault e (getKeyPath (Name cfg)) of
                None \<Rightarrow> None
              | Some _ \<Rightarrow> Some \<lparr>mode = 0x180, content = take n (Key cfg)\<rparr>))"
proof -
  let ?c = "getCfgPath (Name cfg)"
  let ?k = "getKeyPath (Name cfg)"
  let ?arg = "OpenVpnCfg.extend cfg (templateArg.fields libexecdir)"
  let ?F0 = "\<lparr>mode = 0x180 :: 32 word, content = []\<rparr>"
  let ?fs2 = "fs(?c \<mapsto> ?F0, ?k \<mapsto> ?F0)"
  have ck: "?c \<noteq> ?k" by (simp add: cfg_path_not_key_path)
  obtain r3 fs3 where o3: "Execute e ?arg ?c ?fs2 = (r3, fs3)"
    by (cases "Execute e ?arg ?c ?fs2")
  have c0: "?fs2 ?c = Some ?F0"
    using ck by simp
  have "fst (exec_nodes e ?arg ?c openVpnCfgTpl ?fs2) = Return None"
  proof (rule exec_nodes_no_fault[where f = "?F0"])
    show "\<forall>old d. write_fault e ?c old d = None"
      by (rule assms(6))
    show "rand_fault e = None"
      by (rule assms(5))
    show "?fs2 ?c = Some ?F0"
      by (rule c0)
  qed
  with o3 have r3: "r3 = Return None"
    by (simp add: Execute_def)
  from exec_nodes_other[OF o3[unfolded Execute_def], of ?k] ck
  have fk: "fs3 ?k = Some ?F0"
    by simp
  obtain r4 fs4 where o4: "file_Write e ?k (Key cfg) fs3 = (r4, fs4)"
    by (cases "file_Write e ?k (Key cfg) fs3")
  have E: "Save libexecdir e cfg fs
      = (Return r4, deferred_cleanup e ?c r4 (deferred_cleanup e ?k r4 fs4))"
    using Save_after_create[where cfg = cfg and fs = fs and e = e and libexecdir = libexecdir]
      assms(1-4) o3 r3 o4
    by simp
  show ?thesis
  proof (cases "write_fault e ?k [] (Key cfg)")
    case None
    with o4 fk have "r4 = None" "fs4 ?k = Some \<lparr>mode = 0x180, content = Key cfg\<rparr>"
      by (auto simp: file_Write_def)
    with E None show ?thesis
      by (simp add: deferred_cleanup_nil)
  next
    case (Some nn)
    obtain n no where nn: "nn = (n, no)"
      by (cases nn)
    with Some o4 fk have "r4 = Some (PathError ''write'' ?k no)"
      "fs4 ?k = Some \<lparr>mode = 0x180, content = take n (Key cfg)\<rparr>"
      by (auto simp: file_Write_def)
    with E Some nn ck show ?thesis
      by (simp add: deferred_cleanup_at split: option.splits)
  qed
qed

lemma Save_random_failure_state:
  assumes "rand_fault e = Some no"
    and "fs (getCfgPath (Name cfg)) = None" and "fs (getKeyPath (Name cfg)) = None"
    and "create_fault e (getCfgPath (Name cfg)) = None"
    and "create_fault e (getKeyPath (Name cfg)) = None"
    and "write_fault e (getCfgPath (Name cfg)) []
           (NL # ''# This file is automatically generated by hil-vpn-privop; do not modify manually.''
            @ NL # NL # ''dev tap'') = None"
  shows "\<exists>err. Save libexecdir e cfg fs =
     (Return (Some err),
      deferred_cleanup e (getCfgPath (Name cfg)) (Some err)
        (deferred_cleanup e (getKeyPath (Name cfg)) (Some err)
           (fs(getKeyPath (Name cfg) \<mapsto> \<lparr>mode = 0x180, content = []\<rparr>,
               getCfgPath (Name cfg) \<mapsto> \<lparr>mode = 0x180, content =
                 NL # ''# This file is automatically generated by hil-vpn-privop; do not modify manually.''
                 @ NL # NL # ''dev tap''\<rparr>))))"
proof -
  let ?c = "getCfgPath (Name cfg)"
  let ?k = "getKeyPath (Name cfg)"
  have ck: "?c \<noteq> ?k" by (simp add: cfg_path_not_key_path)
  have "Execute e (OpenVpnCfg.extend cfg (templateArg.fields libexecdir)) ?c
          (fs(?c \<mapsto> \<lparr>mode = 0x180, content = []\<rparr>, ?k \<mapsto> \<lparr>mode = 0x180, content = []\<rparr>))
        = (Return (Some (ExecError (FatalError ''Generating interface name''
                     (PathError ''read'' ''/dev/urandom'' no)))),
           fs(?k \<mapsto> \<lparr>mode = 0x180, content = []\<rparr>,
              ?c \<mapsto> \<lparr>mode = 0x180, content =
                 NL # ''# This file is automatically generated by hil-vpn-privop; do not modify manually.''
                 @ NL # NL # ''dev tap''\<rparr>))"
    using assms(1,6) ck
    by (simp add: Execute_def openVpnCfgTpl_def file_Write_def NewInterfaceName_total fun_upd_twist)
  with Save_after_create[where cfg = cfg and fs = fs and e = e and libexecdir = libexecdir] assms(2-5)
  show ?thesis
    by simp
qed

lemma Save_error_changes:
  assumes "Save libexecdir e cfg fs = (Return (Some err), fs')" and that: "fs' p \<noteq> fs p"
  shows "fs p = None
    \<and> (p = getCfgPath (Name cfg) \<and> remove_fault e (getCfgPath (Name cfg)) \<noteq> None
       \<or> p = getKeyPath (Name cfg) \<and> remove_fault e (getKeyPath (Name cfg)) \<noteq> None)"
proof -
  let ?c = "getCfgPath (Name cfg)"
  let ?k = "getKeyPath (Name cfg)"
  have ck: "?c \<noteq> ?k" by (simp add: cfg_path_not_key_path)
  from Save_returns[OF assms(1)]
  have "fs' = fs
    \<or> (fs ?c = None
        \<and> fs' = deferred_cleanup e ?c (Some err) (fs(?c \<mapsto> \<lparr>mode = 0x180, content = []\<rparr>)))
    \<or> (fs ?c = None \<and> fs ?k = None
        \<and> (\<exists>fsN. (\<forall>p. p \<noteq> ?c \<and> p \<noteq> ?k \<longrightarrow> fsN p = fs p)
              \<and> fs' = deferred_cleanup e ?c (Some err)
                         (deferred_cleanup e ?k (Some err) fsN)))"
    by simp
  then show ?thesis
  proof (elim disjE conjE exE)
    assume "fs' = fs"
    with that show ?thesis by simp
  next
    assume "fs ?c = None"
      and "fs' = deferred_cleanup e ?c (Some err) (fs(?c \<mapsto> \<lparr>mode = 0x180, content = []\<rparr>))"
    with that show ?thesis
      by (auto simp: deferred_cleanup_at split: if_splits)
  next
    fix fsN
    assume n: "fs ?c = None" "fs ?k = None"
      and o: "\<forall>p. p \<noteq> ?c \<and> p \<noteq> ?k \<longrightarrow> fsN p = fs p"
      and f: "fs' = deferred_cleanup e ?c (Some err) (deferred_cleanup e ?k (Some err) fsN)"
    from f have A: "fs' p = (if p = ?c \<and> remove_fault e ?c = None then None
                          else if p = ?k \<and> remove_fault e ?k = None then None else fsN p)"
      by (simp add: deferred_cleanup_at)
    show ?thesis
    proof (cases "p = ?c")
      case True
      with A n(1) that have "remove_fault e ?c \<noteq> None"
        by (cases "remove_fault e ?c") simp_all
      with True n(1) show ?thesis by simp
    next
      case notc: False
      show ?thesis
      proof (cases "p = ?k")
        case True
        with A n(2) that notc have "remove_fault e ?k \<noteq> None"
          by (cases "remove_fault e ?k") simp_all
        with True n(2) show ?thesis by simp
      next
        case False
        with A notc o have "fs' p = fs p" by simp
        with that show ?thesis by simp
      qed
    qed
  qed
qed

lemma Save_key_collision:
  assumes "fs (getCfgPath (Name cfg)) = None" and "fs (getKeyPath (Name cfg)) = Some kf"
    and "create_fault e (getCfgPath (Name cfg)) = None"
  shows "os_OpenFile e (getCfgPath (Name cfg)) 0x180 fs
            = (Inr (getCfgPath (Name cfg)),
               fs(getCfgPath (Name cfg) \<mapsto> \<lparr>mode = 0x180, content = []\<rparr>))
    \<and> Save libexecdir e cfg fs
        = (Return (Some (PathError ''open'' (getKeyPath (Name cfg)) EEXIST)),
           snd (os_Remove e (getCfgPath (Name cfg))
                  (fs(getCfgPath (Name cfg) \<mapsto> \<lparr>mode = 0x180, content = []\<rparr>))))"
proof -
  have ne: "getKeyPath (Name cfg) \<noteq> getCfgPath (Name cfg)"
    using cfg_path_not_key_path[of "Name cfg" "Name cfg"] by simp
  from assms
  have o1: "os_OpenFile e (getCfgPath (Name cfg)) 0x180 fs
            = (Inr (getCfgPath (Name cfg)),
               fs(getCfgPath (Name cfg) \<mapsto> \<lparr>mode = 0x180, content = []\<rparr>))"
    by (simp add: os_OpenFile_def)
  from assms ne
  have o2: "os_OpenFile e (getKeyPath (Name cfg)) 0x180
              (fs(getCfgPath (Name cfg) \<mapsto> \<lparr>mode = 0x180, content = []\<rparr>))
            = (Inl (PathError ''open'' (getKeyPath (Name cfg)) EEXIST),
               fs(getCfgPath (Name cfg) \<mapsto> \<lparr>mode = 0x180, content = []\<rparr>))"
    by (simp add: os_OpenFile_def)
  from o1 o2 show ?thesis
    by (simp add: Save_def Let_def deferred_cleanup_def)
qed

subsection \<open>Failing calls of Save\<close>

text \<open>
  Claim C1, as stated, fails: \<open>Save\<close> discards the error of \<^verbatim>\<open>os.Remove\<close>. Here the write
  of the key fails after three bytes and the removals are refused: \<open>Save\<close> returns the
  write error, and the key file, which did not exist before, is left with three bytes.
\<close>

theorem Save_error_leaves_key_file:
  "fst (Save ''/usr/libexec/hil-vpn'' env_keyfail_noremove cfg_lab1 Map.empty)
     = Return (Some (PathError ''write'' (getKeyPath ''lab1'') (Errno 28)))
   \<and> Map.empty (getKeyPath ''lab1'') = (None :: osfile option)
   \<and> snd (Save ''/usr/libexec/hil-vpn'' env_keyfail_noremove cfg_lab1 Map.empty) (getKeyPath ''lab1'')
       = Some \<lparr>mode = 0x180, content = ''sec''\<rparr>"
  using Save_outcome_config_written[where cfg = cfg_lab1 and fs = Map.empty
      and e = env_keyfail_noremove and libexecdir = "''/usr/libexec/hil-vpn''"]
  by (simp add: env_keyfail_noremove_def env_keyfail_def env_ok_def cfg_lab1_def
        cfg_path_not_key_path)

text \<open>
  Claim C1, amended. After every call of \<open>Save\<close> that returns an error, every file that
  existed before is unchanged, and nothing but the config path and the key path of the
  name can differ from before; a file that the call created is removed again unless
  \<^verbatim>\<open>os.Remove\<close> fails for it, so when no removal is refused the file system is exactly
  as it was before the call.
\<close>

theorem Save_error_restores:
  assumes "Save libexecdir e cfg fs = (Return (Some err), fs')"
  shows "(\<forall>p f. fs p = Some f \<longrightarrow> fs' p = Some f)
    \<and> (\<forall>p. p \<noteq> getCfgPath (Name cfg) \<and> p \<noteq> getKeyPath (Name cfg) \<longrightarrow> fs' p = fs p)
    \<and> (remove_fault e (getCfgPath (Name cfg)) = None \<longrightarrow>
          fs' (getCfgPath (Name cfg)) = fs (getCfgPath (Name cfg)))
    \<and> (remove_fault e (getKeyPath (Name cfg)) = None \<longrightarrow>
          fs' (getKeyPath (Name cfg)) = fs (getKeyPath (Name cfg)))
    \<and> (remove_fault e (getCfgPath (Name cfg)) = None
          \<and> remove_fault e (getKeyPath (Name cfg)) = None \<longrightarrow> fs' = fs)"
proof -
  let ?c = "getCfgPath (Name cfg)"
  let ?k = "getKeyPath (Name cfg)"
  have same: "fs' p = fs p"
    if "fs p \<noteq> None \<or> (p \<noteq> ?c \<and> p \<noteq> ?k) \<or> (p = ?c \<and> remove_fault e ?c = None)
          \<or> (p = ?k \<and> remove_fault e ?k = None)" for p
  proof (rule ccontr)
    assume "fs' p \<noteq> fs p"
    from Save_error_changes[OF assms this] that cfg_path_not_key_path[of "Name cfg" "Name cfg"]
    show False
      by auto
  qed
  have 1: "\<forall>p f. fs p = Some f \<longrightarrow> fs' p = Some f"
  proof (intro allI impI)
    fix p f
    assume "fs p = Some f"
    with same[of p] show "fs' p = Some f" by simp
  qed
  have 2: "\<forall>p. p \<noteq> ?c \<and> p \<noteq> ?k \<longrightarrow> fs' p = fs p"
    using same by blast
  have 3: "remove_fault e ?c = None \<longrightarrow> fs' ?c = fs ?c"
    using same[of ?c] by blast
  have 4: "remove_fault e ?k = None \<longrightarrow> fs' ?k = fs ?k"
    using same[of ?k] by blast
  have 5: "remove_fault e ?c = None \<and> remove_fault e ?k = None \<longrightarrow> fs' = fs"
  proof (intro impI ext)
    fix p
    assume "remove_fault e ?c = None \<and> remove_fault e ?k = None"
    then show "fs' p = fs p"
      using same[of p] by blast
  qed
  from 1 2 3 4 5 show ?thesis
    by (intro conjI)
qed

theorem Save_error_restores_witness:
  "fst (Save ''/usr/libexec/hil-vpn'' env_keyfail cfg_lab1 Map.empty)
     = Return (Some (PathError ''write'' (getKeyPath ''lab1'') (Errno 28)))
   \<and> snd (Save ''/usr/libexec/hil-vpn'' env_keyfail cfg_lab1 Map.empty) = Map.empty"
proof -
  have f: "fst (Save ''/usr/libexec/hil-vpn'' env_keyfail cfg_lab1 Map.empty)
     = Return (Some (PathError ''write'' (getKeyPath ''lab1'') (Errno 28)))"
    using Save_outcome_config_written[where cfg = cfg_lab1 and fs = Map.empty and e = env_keyfail
        and libexecdir = "''/usr/libexec/hil-vpn''"]
    by (simp add: env_keyfail_def env_ok_def cfg_lab1_def cfg_path_not_key_path)
  have r: "remove_fault env_keyfail (getCfgPath (Name cfg_lab1)) = None
      \<and> remove_fault env_keyfail (getKeyPath (Name cfg_lab1)) = None"
    by (simp add: env_keyfail_def env_ok_def)
  from Save_error_restores[OF pair_of_fst[OF f]] r f show ?thesis
    by blast
qed

text \<open>
  Claim C4. When the config file of the name already exists, \<open>Save\<close> fails with the
  collision error of the exclusive create, and the file system is as before: the existing
  config file is untouched and no key file is created.
\<close>

theorem Save_config_exists:
  assumes "fs (getCfgPath (Name cfg)) = Some f"
  shows "Save libexecdir e cfg fs
           = (Return (Some (PathError ''open'' (getCfgPath (Name cfg)) EEXIST)), fs)"
  using assms by (simp add: Save_def os_OpenFile_def)

theorem Save_config_exists_witness:
  "Save ''/usr/libexec/hil-vpn'' env_ok cfg_lab1 fs_cfg_exists
     = (Return (Some (PathError ''open'' (getCfgPath ''lab1'') EEXIST)), fs_cfg_exists)"
  using Save_config_exists[where fs = fs_cfg_exists and cfg = cfg_lab1 and e = env_ok
          and f = "\<lparr>mode = 0x1A4, content = ''dev tap0''\<rparr>" and libexecdir = "''/usr/libexec/hil-vpn''"]
  by (simp add: fs_cfg_exists_def cfg_lab1_def)

text \<open>
  Claim C5, as stated, fails: with the key file of \<open>lab1\<close> present, no config file, and
  the removals refused, \<open>Save\<close> returns the collision error and the empty config file it
  created remains.
\<close>

theorem Save_key_exists_orphan:
  "fs_key_exists (getCfgPath ''lab1'') = None
   \<and> fs_key_exists (getKeyPath ''lab1'') = Some \<lparr>mode = 0x180, content = ''old-key''\<rparr>
   \<and> fst (Save ''/usr/libexec/hil-vpn'' env_ok_noremove cfg_lab1 fs_key_exists)
       = Return (Some (PathError ''open'' (getKeyPath ''lab1'') EEXIST))
   \<and> snd (Save ''/usr/libexec/hil-vpn'' env_ok_noremove cfg_lab1 fs_key_exists) (getCfgPath ''lab1'')
       = Some \<lparr>mode = 0x180, content = []\<rparr>"
proof -
  have 1: "fs_key_exists (getCfgPath ''lab1'') = None"
    using cfg_path_not_key_path[of "''lab1''" "''lab1''"]
    by (simp add: fs_key_exists_def)
  have 2: "fs_key_exists (getKeyPath ''lab1'') = Some \<lparr>mode = 0x180, content = ''old-key''\<rparr>"
    by (simp add: fs_key_exists_def)
  from Save_key_collision[where cfg = cfg_lab1 and fs = fs_key_exists and e = env_ok_noremove
      and libexecdir = "''/usr/libexec/hil-vpn''"] 1 2
  show ?thesis
    by (simp add: cfg_lab1_def env_ok_noremove_def env_ok_def os_Remove_def)
qed

text \<open>
  Claim C5, amended. When the key file of the name exists and the config file does not,
  \<open>Save\<close> fails and the existing key file is untouched, as is every path but the config
  path. Unless the environment refuses to create the config file, the config file is
  first created and the error is the collision on the key file; the config file is then
  removed again unless \<^verbatim>\<open>os.Remove\<close> fails for it, in which case it remains, empty. When
  the removal is not refused the file system is as before.
\<close>

theorem Save_key_exists:
  assumes "fs (getCfgPath (Name cfg)) = None" and "fs (getKeyPath (Name cfg)) = Some kf"
  shows "\<exists>err fs'. Save libexecdir e cfg fs = (Return (Some err), fs')
     \<and> fs' (getKeyPath (Name cfg)) = Some kf
     \<and> (\<forall>p. p \<noteq> getCfgPath (Name cfg) \<longrightarrow> fs' p = fs p)
     \<and> fs' (getCfgPath (Name cfg))
         = (if create_fault e (getCfgPath (Name cfg)) = None
               \<and> remove_fault e (getCfgPath (Name cfg)) \<noteq> None
            then Some \<lparr>mode = 0x180, content = []\<rparr> else None)
     \<and> (remove_fault e (getCfgPath (Name cfg)) = None \<longrightarrow> fs' = fs)
     \<and> (create_fault e (getCfgPath (Name cfg)) = None \<longrightarrow>
          os_OpenFile e (getCfgPath (Name cfg)) 0x180 fs
            = (Inr (getCfgPath (Name cfg)),
               fs(getCfgPath (Name cfg) \<mapsto> \<lparr>mode = 0x180, content = []\<rparr>))
          \<and> err = PathError ''open'' (getKeyPath (Name cfg)) EEXIST)"
proof (cases "create_fault e (getCfgPath (Name cfg))")
  case (Some n)
  with assms have "Save libexecdir e cfg fs
      = (Return (Some (PathError ''open'' (getCfgPath (Name cfg)) n)), fs)"
    by (simp add: Save_def os_OpenFile_def)
  with assms Some show ?thesis
    by simp
next
  case None
  have ne: "getKeyPath (Name cfg) \<noteq> getCfgPath (Name cfg)"
    using cfg_path_not_key_path[of "Name cfg" "Name cfg"] by simp
  let ?fs' = "snd (os_Remove e (getCfgPath (Name cfg))
                  (fs(getCfgPath (Name cfg) \<mapsto> \<lparr>mode = 0x180, content = []\<rparr>)))"
  from Save_key_collision[OF assms None, of libexecdir]
  have o1: "os_OpenFile e (getCfgPath (Name cfg)) 0x180 fs
            = (Inr (getCfgPath (Name cfg)),
               fs(getCfgPath (Name cfg) \<mapsto> \<lparr>mode = 0x180, content = []\<rparr>))"
    and S: "Save libexecdir e cfg fs
        = (Return (Some (PathError ''open'' (getKeyPath (Name cfg)) EEXIST)), ?fs')"
    by blast+
  have k: "?fs' (getKeyPath (Name cfg)) = Some kf"
    using assms(2) ne by (simp add: os_Remove_def split: option.splits)
  have oth: "\<forall>p. p \<noteq> getCfgPath (Name cfg) \<longrightarrow> ?fs' p = fs p"
    by (simp add: os_Remove_def split: option.splits)
  have c: "?fs' (getCfgPath (Name cfg))
         = (if remove_fault e (getCfgPath (Name cfg)) \<noteq> None
            then Some \<lparr>mode = 0x180, content = []\<rparr> else None)"
    by (simp add: os_Remove_def split: option.splits)
  have r: "remove_fault e (getCfgPath (Name cfg)) = None \<longrightarrow> ?fs' = fs"
    using assms(1) by (auto simp: os_Remove_def fun_eq_iff)
  from S k oth c r o1 None show ?thesis
    by simp
qed

theorem Save_key_exists_witness:
  "Save ''/usr/libexec/hil-vpn'' env_ok cfg_lab1 fs_key_exists
     = (Return (Some (PathError ''open'' (getKeyPath ''lab1'') EEXIST)), fs_key_exists)"
proof -
  have 1: "fs_key_exists (getCfgPath (Name cfg_lab1)) = None"
    using cfg_path_not_key_path[of "''lab1''" "''lab1''"]
    by (simp add: fs_key_exists_def cfg_lab1_def)
  have 2: "fs_key_exists (getKeyPath (Name cfg_lab1)) = Some \<lparr>mode = 0x180, content = ''old-key''\<rparr>"
    by (simp add: fs_key_exists_def cfg_lab1_def)
  have 3: "create_fault env_ok (getCfgPath (Name cfg_lab1)) = None"
    "remove_fault env_ok (getCfgPath (Name cfg_lab1)) = None"
    by (simp_all add: env_ok_def)
  from Save_key_exists[OF 1 2, where libexecdir = "''/usr/libexec/hil-vpn''" and e = env_ok] 3
  show ?thesis
    by (auto simp: cfg_lab1_def)
qed

text \<open>
  Claim C2, as stated, fails: with the random source failing and the removals refused,
  \<open>Save\<close> returns an error, and the two files it created are both left, the config file
  holding the text before the device name.
\<close>

theorem Save_random_failure_leaves_files:
  "rand_fault env_norand_noremove = Some (Errno 5)
   \<and> Map.empty (getCfgPath ''lab1'') = (None :: osfile option)
   \<and> Map.empty (getKeyPath ''lab1'') = (None :: osfile option)
   \<and> failed (fst (Save ''/usr/libexec/hil-vpn'' env_norand_noremove cfg_lab1 Map.empty))
   \<and> snd (Save ''/usr/libexec/hil-vpn'' env_norand_noremove cfg_lab1 Map.empty) (getCfgPath ''lab1'')
       = Some \<lparr>mode = 0x180, content =
               NL # ''# This file is automatically generated by hil-vpn-privop; do not modify manually.''
               @ NL # NL # ''dev tap''\<rparr>
   \<and> snd (Save ''/usr/libexec/hil-vpn'' env_norand_noremove cfg_lab1 Map.empty) (getKeyPath ''lab1'')
       = Some \<lparr>mode = 0x180, content = []\<rparr>"
proof -
  have ne: "getCfgPath ''lab1'' \<noteq> getKeyPath ''lab1''"
    by (rule cfg_path_not_key_path)
  have "\<exists>err. Save ''/usr/libexec/hil-vpn'' env_norand_noremove cfg_lab1 Map.empty =
     (Return (Some err),
      deferred_cleanup env_norand_noremove (getCfgPath (Name cfg_lab1)) (Some err)
        (deferred_cleanup env_norand_noremove (getKeyPath (Name cfg_lab1)) (Some err)
           (Map.empty(getKeyPath (Name cfg_lab1) \<mapsto> \<lparr>mode = 0x180, content = []\<rparr>,
               getCfgPath (Name cfg_lab1) \<mapsto> \<lparr>mode = 0x180, content =
                 NL # ''# This file is automatically generated by hil-vpn-privop; do not modify manually.''
                 @ NL # NL # ''dev tap''\<rparr>))))"
    by (rule Save_random_failure_state)
       (simp_all add: env_norand_noremove_def env_norand_def env_ok_def)
  then obtain err where S: "Save ''/usr/libexec/hil-vpn'' env_norand_noremove cfg_lab1 Map.empty =
     (Return (Some err),
      deferred_cleanup env_norand_noremove (getCfgPath (Name cfg_lab1)) (Some err)
        (deferred_cleanup env_norand_noremove (getKeyPath (Name cfg_lab1)) (Some err)
           (Map.empty(getKeyPath (Name cfg_lab1) \<mapsto> \<lparr>mode = 0x180, content = []\<rparr>,
               getCfgPath (Name cfg_lab1) \<mapsto> \<lparr>mode = 0x180, content =
                 NL # ''# This file is automatically generated by hil-vpn-privop; do not modify manually.''
                 @ NL # NL # ''dev tap''\<rparr>))))"
    by blast
  have n: "Name cfg_lab1 = ''lab1''"
    by (simp add: cfg_lab1_def)
  have r: "remove_fault env_norand_noremove (getCfgPath ''lab1'') = Some (Errno 1)"
    "remove_fault env_norand_noremove (getKeyPath ''lab1'') = Some (Errno 1)"
    "rand_fault env_norand_noremove = Some (Errno 5)"
    by (simp_all add: env_norand_noremove_def env_norand_def env_ok_def)
  have 1: "failed (fst (Save ''/usr/libexec/hil-vpn'' env_norand_noremove cfg_lab1 Map.empty))"
    unfolding S by (simp add: failed_def)
  have 2: "snd (Save ''/usr/libexec/hil-vpn'' env_norand_noremove cfg_lab1 Map.empty) (getCfgPath ''lab1'')
       = Some \<lparr>mode = 0x180, content =
               NL # ''# This file is automatically generated by hil-vpn-privop; do not modify manually.''
               @ NL # NL # ''dev tap''\<rparr>"
    unfolding S n using r by (simp add: deferred_cleanup_at)
  have 3: "snd (Save ''/usr/libexec/hil-vpn'' env_norand_noremove cfg_lab1 Map.empty) (getKeyPath ''lab1'')
       = Some \<lparr>mode = 0x180, content = []\<rparr>"
    unfolding S n using r ne by (simp add: deferred_cleanup_at)
  from 1 2 3 r(3) show ?thesis
    by simp
qed

text \<open>
  Claim C2, amended. If the secure random source cannot supply bytes when \<open>Save\<close> reaches
  the interface-name allocation (both files have been created and the text before the
  device name has been written), the failure is reported to the caller as the result of
  \<open>Save\<close>, and each of the two files just created is removed unless \<^verbatim>\<open>os.Remove\<close> fails
  for it; when neither removal is refused the file system is left unchanged.
\<close>

theorem Save_random_failure_reported:
  assumes "rand_fault e = Some no"
    and "fs (getCfgPath (Name cfg)) = None" and "fs (getKeyPath (Name cfg)) = None"
    and "create_fault e (getCfgPath (Name cfg)) = None"
    and "create_fault e (getKeyPath (Name cfg)) = None"
    and "write_fault e (getCfgPath (Name cfg)) []
           (NL # ''# This file is automatically generated by hil-vpn-privop; do not modify manually.''
            @ NL # NL # ''dev tap'') = None"
  shows "\<exists>err fs'. Save libexecdir e cfg fs = (Return (Some err), fs')
     \<and> (\<forall>p. p \<noteq> getCfgPath (Name cfg) \<and> p \<noteq> getKeyPath (Name cfg) \<longrightarrow> fs' p = fs p)
     \<and> fs' (getCfgPath (Name cfg))
         = (if remove_fault e (getCfgPath (Name cfg)) = None then None
            else Some \<lparr>mode = 0x180, content =
               NL # ''# This file is automatically generated by hil-vpn-privop; do not modify manually.''
               @ NL # NL # ''dev tap''\<rparr>)
     \<and> fs' (getKeyPath (Name cfg))
         = (if remove_fault e (getKeyPath (Name cfg)) = None then None
            else Some \<lparr>mode = 0x180, content = []\<rparr>)
     \<and> (remove_fault e (getCfgPath (Name cfg)) = None
          \<and> remove_fault e (getKeyPath (Name cfg)) = None \<longrightarrow> fs' = fs)"
proof -
  let ?c = "getCfgPath (Name cfg)"
  let ?k = "getKeyPath (Name cfg)"
  let ?t = "NL # ''# This file is automatically generated by hil-vpn-privop; do not modify manually.''
            @ NL # NL # ''dev tap''"
  let ?fsN = "fs(?k \<mapsto> \<lparr>mode = 0x180, content = []\<rparr>, ?c \<mapsto> \<lparr>mode = 0x180, content = ?t\<rparr>)"
  have ck: "?c \<noteq> ?k" by (simp add: cfg_path_not_key_path)
  from Save_random_failure_state[OF assms, of libexecdir] obtain err where
    S: "Save libexecdir e cfg fs =
     (Return (Some err), deferred_cleanup e ?c (Some err) (deferred_cleanup e ?k (Some err) ?fsN))"
    by blast
  let ?fs' = "deferred_cleanup e ?c (Some err) (deferred_cleanup e ?k (Some err) ?fsN)"
  have at: "?fs' p = (if p = ?c then (if remove_fault e ?c = None then None
                                     else Some \<lparr>mode = 0x180, content = ?t\<rparr>)
                     else if p = ?k then (if remove_fault e ?k = None then None
                                          else Some \<lparr>mode = 0x180, content = []\<rparr>)
                     else fs p)" for p
    using ck by (simp add: deferred_cleanup_at)
  have 1: "\<forall>p. p \<noteq> ?c \<and> p \<noteq> ?k \<longrightarrow> ?fs' p = fs p"
    by (simp only: at) simp
  have 2: "?fs' ?c = (if remove_fault e ?c = None then None
                      else Some \<lparr>mode = 0x180, content = ?t\<rparr>)"
    by (simp only: at) simp
  have 3: "?fs' ?k = (if remove_fault e ?k = None then None
                      else Some \<lparr>mode = 0x180, content = []\<rparr>)"
    using ck by (simp only: at) simp
  have 4: "remove_fault e ?c = None \<and> remove_fault e ?k = None \<longrightarrow> ?fs' = fs"
  proof (intro impI ext)
    fix p
    assume "remove_fault e ?c = None \<and> remove_fault e ?k = None"
    with assms(2,3) show "?fs' p = fs p"
      by (simp only: at) simp
  qed
  from S 1 2 3 4 show ?thesis
    by blast
qed

theorem Save_random_failure_reported_witness:
  "(\<exists>err. fst (Save ''/usr/libexec/hil-vpn'' env_norand cfg_lab1 Map.empty) = Return (Some err))
   \<and> snd (Save ''/usr/libexec/hil-vpn'' env_norand cfg_lab1 Map.empty) = Map.empty"
proof -
  have "\<exists>err fs'. Save ''/usr/libexec/hil-vpn'' env_norand cfg_lab1 Map.empty = (Return (Some err), fs')
     \<and> (remove_fault env_norand (getCfgPath (Name cfg_lab1)) = None
          \<and> remove_fault env_norand (getKeyPath (Name cfg_lab1)) = None \<longrightarrow> fs' = Map.empty)"
    using Save_random_failure_reported[where e = env_norand and cfg = cfg_lab1 and fs = Map.empty
        and no = "Errno 5" and libexecdir = "''/usr/libexec/hil-vpn''"]
    by (simp add: env_norand_def env_ok_def)
  then show ?thesis
    by (auto simp: env_norand_def env_ok_def)
qed

subsection \<open>Successful calls of Save\<close>

text \<open>
  Claim C3. After every call of \<open>Save\<close> that returns nil, the config file and the key file
  exist; neither existed before, and each was created with mode 0600 (hexadecimal 180:
  read and write for the owner, nothing for anyone else); the content of the key file is
  the \<open>Key\<close> field of the configuration, byte for byte.
\<close>

theorem Save_success_files:
  assumes "Save libexecdir e cfg fs = (Return None, fs')"
  shows "fs (getCfgPath (Name cfg)) = None \<and> fs (getKeyPath (Name cfg)) = None
    \<and> (\<exists>doc. fs' (getCfgPath (Name cfg)) = Some \<lparr>mode = 0x180, content = doc\<rparr>)
    \<and> fs' (getKeyPath (Name cfg)) = Some \<lparr>mode = 0x180, content = Key cfg\<rparr>
    \<and> (0x180 :: 32 word) = 6 * 8 ^ 2"
  using Save_success_steps[OF assms] cfg_path_not_key_path[of "Name cfg" "Name cfg"]
  by auto

theorem Save_success_files_witness:
  "fst (Save ''/usr/libexec/hil-vpn'' env_ok cfg_lab1 Map.empty) = Return None
   \<and> (\<exists>doc. snd (Save ''/usr/libexec/hil-vpn'' env_ok cfg_lab1 Map.empty) (getCfgPath ''lab1'')
          = Some \<lparr>mode = 0x180, content = doc\<rparr>)
   \<and> snd (Save ''/usr/libexec/hil-vpn'' env_ok cfg_lab1 Map.empty) (getKeyPath ''lab1'')
       = Some \<lparr>mode = 0x180, content = ''secret-bytes''\<rparr>"
proof -
  have f: "fst (Save ''/usr/libexec/hil-vpn'' env_ok cfg_lab1 Map.empty) = Return None"
    using Save_outcome_config_written[where cfg = cfg_lab1 and fs = Map.empty and e = env_ok
        and libexecdir = "''/usr/libexec/hil-vpn''"]
    by (simp add: env_ok_def cfg_lab1_def)
  from Save_success_files[OF pair_of_fst[OF f]] f show ?thesis
    by (simp add: cfg_lab1_def)
qed

subsection \<open>The interface name and the rendered document\<close>

text \<open>
  Claim C6. Every successful call of \<open>NewInterfaceName\<close> returns exactly twelve
  characters of the URL-safe base64 alphabet (\<^verbatim>\<open>A-Z\<close>, \<^verbatim>\<open>a-z\<close>, \<^verbatim>\<open>0-9\<close>, \<^verbatim>\<open>-\<close>, \<^verbatim>\<open>_\<close>): the
  random source has supplied sixteen bytes, and the result is the first twelve characters
  of their unpadded URL-safe base64 encoding.
\<close>

theorem NewInterfaceName_shape:
  assumes "NewInterfaceName e cfg = Return s"
  shows "length s = 12
    \<and> set s \<subseteq> set ''ABCDEFGHIJKLMNOPQRSTUVWXYZabcdefghijklmnopqrstuvwxyz0123456789-_''
    \<and> rand_Read e 16 = (map (rand_bytes e) [0..<16], None)
    \<and> length (map (rand_bytes e) [0..<16]) = 16
    \<and> s = take 12 (EncodeToString (map (rand_bytes e) [0..<16]))"
proof -
  from NewInterfaceName_Return[OF assms]
  have rf: "rand_fault e = None"
    and s: "s = take 12 (EncodeToString (map (rand_bytes e) [0..<16]))"
    and len: "length s = 12" and sub: "set s \<subseteq> set encodeURL"
    by blast+
  from rf have "rand_Read e 16 = (map (rand_bytes e) [0..<16], None)"
    by (simp add: rand_Read_def)
  moreover from sub
  have "set s \<subseteq> set ''ABCDEFGHIJKLMNOPQRSTUVWXYZabcdefghijklmnopqrstuvwxyz0123456789-_''"
    unfolding encodeURL_def .
  ultimately show ?thesis
    using s len by simp
qed

theorem NewInterfaceName_shape_witness:
  "NewInterfaceName env_ok cfg_lab1 = Return ''yO0SN1yBpsvw''
   \<and> length ''yO0SN1yBpsvw'' = 12
   \<and> set ''yO0SN1yBpsvw''
       \<subseteq> set ''ABCDEFGHIJKLMNOPQRSTUVWXYZabcdefghijklmnopqrstuvwxyz0123456789-_''"
proof -
  have n: "NewInterfaceName env_ok cfg_lab1 = Return ''yO0SN1yBpsvw''"
    by (simp add: NewInterfaceName_def rand_Read_def chkfatal_def env_ok_def upt_16 encodeURL_def)
  from NewInterfaceName_shape[OF n] n show ?thesis
    by blast
qed

lemma lines_of_line: "NL \<notin> set a \<Longrightarrow> lines_of (a @ NL # rest) = a # lines_of rest"
  by (induction a) auto

lemma lines_of_last: "NL \<notin> set a \<Longrightarrow> lines_of a = [a]"
  by (induction a) auto

lemma lines_of_join:
  "\<forall>l \<in> set ls. NL \<notin> set l \<Longrightarrow> NL \<notin> set z \<Longrightarrow>
     lines_of (concat (map (\<lambda>l. l @ [NL]) ls) @ z) = ls @ [z]"
  by (induction ls) (simp_all add: lines_of_last lines_of_line)

lemma NL_not_alphabet: "NL \<notin> set encodeURL"
  by (simp add: encodeURL_def)

lemma itoa_1194: "itoa 1194 = ''1194''"
  by code_simp

lemma itoa_42: "itoa 42 = ''42''"
  by code_simp

text \<open>
  Claim C7. For the name \<^verbatim>\<open>lab1\<close>, VLAN 42, port 1194 and the helper-script directory
  \<^verbatim>\<open>/usr/libexec/hil-vpn\<close>, the document that a successful \<open>Save\<close> has written to the config
  file has the lines \<^verbatim>\<open>lport 1194\<close>, \<^verbatim>\<open>up "/usr/libexec/hil-vpn/hil-vpn-hook-up 42"\<close>,
  \<^verbatim>\<open>secret hil-vpn-lab1.key\<close>, the fixed cipher line \<^verbatim>\<open>cipher AES-256-CBC\<close>,
  \<^verbatim>\<open>script-security 2\<close>, and a line \<^verbatim>\<open>dev tap\<close> followed by twelve characters of the
  URL-safe base64 alphabet.
\<close>

theorem rendered_document_lab1:
  assumes "Save ''/usr/libexec/hil-vpn'' e \<lparr>Name = ''lab1'', Key = key, Port = 1194, Vlan = 42\<rparr> fs
             = (Return None, fs')"
  shows "\<exists>doc s. fs' (getCfgPath ''lab1'') = Some \<lparr>mode = 0x180, content = doc\<rparr>
     \<and> ''lport 1194'' \<in> set (lines_of doc)
     \<and> ''up '' @ [DQ] @ ''/usr/libexec/hil-vpn/hil-vpn-hook-up 42'' @ [DQ] \<in> set (lines_of doc)
     \<and> ''secret hil-vpn-lab1.key'' \<in> set (lines_of doc)
     \<and> ''cipher AES-256-CBC'' \<in> set (lines_of doc)
     \<and> ''script-security 2'' \<in> set (lines_of doc)
     \<and> ''dev tap'' @ s \<in> set (lines_of doc)
     \<and> length s = 12
     \<and> set s \<subseteq> set ''ABCDEFGHIJKLMNOPQRSTUVWXYZabcdefghijklmnopqrstuvwxyz0123456789-_''"
proof -
  let ?cfg = "\<lparr>Name = ''lab1'', Key = key, Port = 1194 :: 16 word, Vlan = 42 :: 16 word\<rparr>"
  let ?arg = "OpenVpnCfg.extend ?cfg (templateArg.fields ''/usr/libexec/hil-vpn'')"
  from Save_success_steps[OF assms] obtain pieces where
    p: "list_all2 (\<lambda>n s. case n of Text t \<Rightarrow> s = t | Action a \<Rightarrow> evalField e ?arg a = Return s)
          openVpnCfgTpl pieces"
    and f: "fs' (getCfgPath ''lab1'') = Some \<lparr>mode = 0x180, content = concat pieces\<rparr>"
    using cfg_path_not_key_path[of "''lab1''" "''lab1''"] by auto
  from rendered_pieces[OF p] obtain s where
    s: "NewInterfaceName e ?arg = Return s"
    and doc: "concat pieces = concat (map (\<lambda>l. l @ [NL])
      [[], ''# This file is automatically generated by hil-vpn-privop; do not modify manually.'',
       [], ''dev tap'' @ s, ''secret hil-vpn-lab1.key'', [],
       ''# The default cipher is insecure, so we explicitly set the cipher to the openvpn'',
       ''# project'' @ CHR 0x27 # ''s recommendation. See https://community.openvpn.net/openvpn/wiki/SWEET32'',
       ''cipher AES-256-CBC'', [], ''lport 1194'', [],
       ''up '' @ DQ # ''/usr/libexec/hil-vpn/hil-vpn-hook-up 42'' @ [DQ],
       ''# Needed to permit the above to actually run:'', ''script-security 2'', [],
       ''user nobody'', ''group nobody'']) @ []"
    by (auto simp: OpenVpnCfg.defs templateArg.defs itoa_1194 itoa_42)
  from NewInterfaceName_Return[OF s]
  have len: "length s = 12" and sub: "set s \<subseteq> set encodeURL"
    by blast+
  from sub NL_not_alphabet have nl: "NL \<notin> set s"
    by blast
  have "lines_of (concat pieces) =
      [[], ''# This file is automatically generated by hil-vpn-privop; do not modify manually.'',
       [], ''dev tap'' @ s, ''secret hil-vpn-lab1.key'', [],
       ''# The default cipher is insecure, so we explicitly set the cipher to the openvpn'',
       ''# project'' @ CHR 0x27 # ''s recommendation. See https://community.openvpn.net/openvpn/wiki/SWEET32'',
       ''cipher AES-256-CBC'', [], ''lport 1194'', [],
       ''up '' @ DQ # ''/usr/libexec/hil-vpn/hil-vpn-hook-up 42'' @ [DQ],
       ''# Needed to permit the above to actually run:'', ''script-security 2'', [],
       ''user nobody'', ''group nobody''] @ [[]]"
    unfolding doc by (rule lines_of_join) (simp_all add: nl)
  then have L: "set (lines_of (concat pieces)) =
      set [[], ''# This file is automatically generated by hil-vpn-privop; do not modify manually.'',
       [], ''dev tap'' @ s, ''secret hil-vpn-lab1.key'', [],
       ''# The default cipher is insecure, so we explicitly set the cipher to the openvpn'',
       ''# project'' @ CHR 0x27 # ''s recommendation. See https://community.openvpn.net/openvpn/wiki/SWEET32'',
       ''cipher AES-256-CBC'', [], ''lport 1194'', [],
       ''up '' @ DQ # ''/usr/libexec/hil-vpn/hil-vpn-hook-up 42'' @ [DQ],
       ''# Needed to permit the above to actually run:'', ''script-security 2'', [],
       ''user nobody'', ''group nobody'', []]"
    by simp
  from sub
  have sub': "set s \<subseteq> set ''ABCDEFGHIJKLMNOPQRSTUVWXYZabcdefghijklmnopqrstuvwxyz0123456789-_''"
    unfolding encodeURL_def .
  have 1: "''lport 1194'' \<in> set (lines_of (concat pieces))"
    unfolding L by simp
  have 2: "''up '' @ [DQ] @ ''/usr/libexec/hil-vpn/hil-vpn-hook-up 42'' @ [DQ] \<in> set (lines_of (concat pieces))"
    unfolding L by simp
  have 3: "''secret hil-vpn-lab1.key'' \<in> set (lines_of (concat pieces))"
    unfolding L by simp
  have 4: "''cipher AES-256-CBC'' \<in> set (lines_of (concat pieces))"
    unfolding L by simp
  have 5: "''script-security 2'' \<in> set (lines_of (concat pieces))"
    unfolding L by simp
  have 6: "''dev tap'' @ s \<in> set (lines_of (concat pieces))"
    unfolding L by simp
  from f 1 2 3 4 5 6 len sub' show ?thesis
    by blast
qed

theorem rendered_document_lab1_witness:
  "fst (Save ''/usr/libexec/hil-vpn'' env_ok cfg_lab1 Map.empty) = Return None
   \<and> (\<exists>doc. snd (Save ''/usr/libexec/hil-vpn'' env_ok cfg_lab1 Map.empty) (getCfgPath ''lab1'')
          = Some \<lparr>mode = 0x180, content = doc\<rparr>
        \<and> ''lport 1194'' \<in> set (lines_of doc)
        \<and> ''secret hil-vpn-lab1.key'' \<in> set (lines_of doc)
        \<and> ''script-security 2'' \<in> set (lines_of doc))"
proof -
  have f: "fst (Save ''/usr/libexec/hil-vpn'' env_ok cfg_lab1 Map.empty) = Return None"
    using Save_outcome_config_written[where cfg = cfg_lab1 and fs = Map.empty and e = env_ok
        and libexecdir = "''/usr/libexec/hil-vpn''"]
    by (simp add: env_ok_def cfg_lab1_def)
  from rendered_document_lab1[OF pair_of_fst[OF f, unfolded cfg_lab1_def]] f show ?thesis
    unfolding cfg_lab1_def by blast
qed

subsection \<open>Generating a configuration\<close>

text \<open>
  Claim C8. \<open>NewOpenVpnConfig\<close> returns an error, which carries the failure of the process,
  and no configuration exactly when the \<^verbatim>\<open>openvpn\<close> subprocess could not be started or did
  not exit with status 0. Otherwise it returns a configuration whose \<open>Name\<close>, \<open>Vlan\<close> and
  \<open>Port\<close> are the arguments and whose \<open>Key\<close> is the whole standard output of the
  subprocess. In either case the file system is as before.
\<close>

theorem NewOpenVpnConfig_result:
  "((\<exists>err. NewOpenVpnConfig e name vlan port fs
             = (Inl (Errorf ''Error invoking openvpn: '' err), fs)
           \<and> snd (cmd_Output e [''openvpn'', ''--genkey'', ''--secret'', ''/dev/fd/1'']) = Some err)
      \<longleftrightarrow> (\<forall>out. run_cmd e [''openvpn'', ''--genkey'', ''--secret'', ''/dev/fd/1'']
                    \<noteq> Exited 0 out))
   \<and> ((\<exists>cfg. NewOpenVpnConfig e name vlan port fs = (Inr cfg, fs))
      \<longleftrightarrow> (\<exists>out. run_cmd e [''openvpn'', ''--genkey'', ''--secret'', ''/dev/fd/1'']
                    = Exited 0 out))
   \<and> (\<forall>out. run_cmd e [''openvpn'', ''--genkey'', ''--secret'', ''/dev/fd/1''] = Exited 0 out \<longrightarrow>
         NewOpenVpnConfig e name vlan port fs
           = (Inr \<lparr>Name = name, Key = out, Port = port, Vlan = vlan\<rparr>, fs))
   \<and> snd (NewOpenVpnConfig e name vlan port fs) = fs"
  by (cases "run_cmd e [''openvpn'', ''--genkey'', ''--secret'', ''/dev/fd/1'']")
     (auto simp: NewOpenVpnConfig_def cmd_Output_def)

theorem NewOpenVpnConfig_result_witness:
  "NewOpenVpnConfig env_ok ''lab1'' 42 1194 Map.empty = (Inr cfg_lab1, Map.empty)
   \<and> NewOpenVpnConfig env_nokey ''lab1'' 42 1194 Map.empty
       = (Inl (Errorf ''Error invoking openvpn: '' (ExitError 1)), Map.empty)"
proof -
  have ok: "run_cmd env_ok [''openvpn'', ''--genkey'', ''--secret'', ''/dev/fd/1'']
              = Exited 0 ''secret-bytes''"
    by (simp add: env_ok_def)
  have no: "\<forall>out. run_cmd env_nokey [''openvpn'', ''--genkey'', ''--secret'', ''/dev/fd/1'']
              \<noteq> Exited 0 out"
    by (simp add: env_ok_def env_nokey_def)
  have out: "snd (cmd_Output env_nokey [''openvpn'', ''--genkey'', ''--secret'', ''/dev/fd/1''])
               = Some (ExitError 1)"
    by (simp add: cmd_Output_def env_ok_def env_nokey_def)
  from NewOpenVpnConfig_result[of env_ok "''lab1''" 42 1194 Map.empty] ok
  have "NewOpenVpnConfig env_ok ''lab1'' 42 1194 Map.empty = (Inr cfg_lab1, Map.empty)"
    by (simp add: cfg_lab1_def)
  moreover from NewOpenVpnConfig_result[of env_nokey "''lab1''" 42 1194 Map.empty] no out
  have "NewOpenVpnConfig env_nokey ''lab1'' 42 1194 Map.empty
       = (Inl (Errorf ''Error invoking openvpn: '' (ExitError 1)), Map.empty)"
    by auto
  ultimately show ?thesis
    by simp
qed

end
